theory Spec2Isabelle
  imports Main
begin

section \<open>Data model\<close>

text \<open>
  Instants are milliseconds since the epoch, as JavaScript's \<open>Date\<close> holds them.
  Every reading of the clock that the source makes is an explicit argument of the model,
  one argument for each call of \<open>Date.now()\<close>, \<open>new Date()\<close> or of a library function
  that reads the clock.
\<close>

type_synonym time = nat

text \<open>
  The object that \<open>jwt.sign\<close> is given (\<open>{ userId, email, type }\<close>), and the object that
  \<open>jwt.verify\<close> hands to its callback: the same fields with the issue and expiry instants
  the library adds (in seconds).
\<close>

record payload =
  jwt_userId :: nat
  jwt_email :: string
  jwt_type :: string

record decoded = payload +
  jwt_iat :: nat
  jwt_exp :: nat

text \<open>
  The library \<open>jsonwebtoken\<close> is not part of the repository. The model takes its two
  functions as parameters, with the secret \<open>process.env.JWT_SECRET\<close> already applied:
  \<^item> \<open>sg p expiresIn t\<close> is \<open>jwt.sign(p, secret, { expiresIn })\<close> called when the clock
    reads \<open>t\<close>;
  \<^item> \<open>vf tok t\<close> is \<open>jwt.verify(tok, secret, callback)\<close> called when the clock reads \<open>t\<close>:
    \<open>None\<close> when the callback receives an error, \<open>Some d\<close> when it receives the decoded
    object \<open>d\<close>.
  Tokens are values of a type \<open>'tok\<close> compared by equality, as the source compares strings.
\<close>

type_synonym 'tok jwt_sign = "payload \<Rightarrow> string \<Rightarrow> time \<Rightarrow> 'tok"
type_synonym 'tok jwt_verify = "'tok \<Rightarrow> time \<Rightarrow> decoded option"

text \<open>An element of the array \<open>refreshTokens\<close>, and the array itself.\<close>

record 'tok refresh_record =
  token :: 'tok
  userId :: nat
  createdAt :: time
  expiresAt :: time

type_synonym 'tok store = "'tok refresh_record list"

section \<open>Array operations of the language\<close>

text \<open>\<open>Array.prototype.findIndex\<close>: the index of the first element satisfying \<open>P\<close>, or \<open>-1\<close>.\<close>

fun findIndexFrom :: "('a \<Rightarrow> bool) \<Rightarrow> nat \<Rightarrow> 'a list \<Rightarrow> int" where
  "findIndexFrom P k [] = - 1"
| "findIndexFrom P k (x # xs) = (if P x then int k else findIndexFrom P (Suc k) xs)"

definition findIndex :: "('a \<Rightarrow> bool) \<Rightarrow> 'a list \<Rightarrow> int" where
  "findIndex P xs = findIndexFrom P 0 xs"

text \<open>\<open>xs.splice(i, 1)\<close> for an index \<open>i \<ge> 0\<close>: the array without its element at \<open>i\<close>.\<close>

definition splice1 :: "nat \<Rightarrow> 'a list \<Rightarrow> 'a list" where
  "splice1 i xs = take i xs @ drop (Suc i) xs"

section \<open>AuthService: token generation and the refresh-token array\<close>

definition generateAccessToken :: "'tok jwt_sign \<Rightarrow> nat \<Rightarrow> string \<Rightarrow> time \<Rightarrow> 'tok" where
  "generateAccessToken sg uid em t =
     sg \<lparr>jwt_userId = uid, jwt_email = em, jwt_type = ''access''\<rparr> ''15m'' t"

definition generateRefreshToken :: "'tok jwt_sign \<Rightarrow> nat \<Rightarrow> string \<Rightarrow> time \<Rightarrow> 'tok" where
  "generateRefreshToken sg uid em t =
     sg \<lparr>jwt_userId = uid, jwt_email = em, jwt_type = ''refresh''\<rparr> ''7d'' t"

definition sevenDays :: time where
  "sevenDays = 7 * 24 * 60 * 60 * 1000"

text \<open>
  \<open>generateTokens\<close> reads the clock four times: once in each \<open>jwt.sign\<close> (\<open>tA\<close>, \<open>tR\<close>),
  once in \<open>new Date()\<close> for \<open>createdAt\<close> (\<open>tC\<close>) and once in \<open>Date.now()\<close> for
  \<open>expiresAt\<close> (\<open>tE\<close>). It returns the pair of tokens and the array after the \<open>push\<close>.
\<close>

definition generateTokens ::
  "'tok jwt_sign \<Rightarrow> nat \<Rightarrow> string \<Rightarrow> time \<Rightarrow> time \<Rightarrow> time \<Rightarrow> time \<Rightarrow> 'tok store
     \<Rightarrow> ('tok \<times> 'tok) \<times> 'tok store" where
  "generateTokens sg uid em tA tR tC tE refreshTokens =
     (let accessToken = generateAccessToken sg uid em tA;
          refreshToken = generateRefreshToken sg uid em tR
      in ((accessToken, refreshToken),
          refreshTokens @ [\<lparr>token = refreshToken, userId = uid,
                            createdAt = tC, expiresAt = tE + sevenDays\<rparr>]))"

text \<open>\<open>removeRefreshToken\<close>: the returned boolean and the array after the call.\<close>

definition removeRefreshToken :: "'tok \<Rightarrow> 'tok store \<Rightarrow> bool \<times> 'tok store" where
  "removeRefreshToken refreshToken refreshTokens =
     (let tokenIndex = findIndex (\<lambda>rt. token rt = refreshToken) refreshTokens
      in if tokenIndex > - 1 then (True, splice1 (nat tokenIndex) refreshTokens)
         else (False, refreshTokens))"

definition getUserRefreshTokens :: "nat \<Rightarrow> 'tok store \<Rightarrow> 'tok store" where
  "getUserRefreshTokens uid refreshTokens = filter (\<lambda>rt. userId rt = uid) refreshTokens"

text \<open>
  \<open>removeAllUserRefreshTokens\<close>: \<open>filter\<close> builds a new array, and \<open>forEach\<close> over it calls
  \<open>removeRefreshToken\<close> with the token of each of its elements, in order.
\<close>

definition removeAllUserRefreshTokens :: "nat \<Rightarrow> 'tok store \<Rightarrow> nat \<times> 'tok store" where
  "removeAllUserRefreshTokens uid refreshTokens =
     (let userTokens = filter (\<lambda>rt. userId rt = uid) refreshTokens
      in (length userTokens,
          fold (\<lambda>t s. snd (removeRefreshToken (token t) s)) userTokens refreshTokens))"

text \<open>
  \<open>verifyRefreshToken\<close>: the promise is rejected with an \<open>Error\<close> carrying a message
  (\<open>Inl\<close> of the message) or resolved with the decoded object (\<open>Inr\<close>). \<open>tv\<close> is the clock
  reading of \<open>jwt.verify\<close>, \<open>now\<close> the one of \<open>new Date()\<close> in the expiry test. The second
  component is the array after the call.
\<close>

definition verifyRefreshToken ::
  "'tok jwt_verify \<Rightarrow> 'tok \<Rightarrow> time \<Rightarrow> time \<Rightarrow> 'tok store \<Rightarrow> (string + decoded) \<times> 'tok store" where
  "verifyRefreshToken vf refreshToken tv now refreshTokens =
     (case vf refreshToken tv of
        None \<Rightarrow> (Inl ''Invalid or expired refresh token'', refreshTokens)
      | Some d \<Rightarrow>
          (case find (\<lambda>rt. token rt = refreshToken) refreshTokens of
             None \<Rightarrow> (Inl ''Refresh token not found'', refreshTokens)
           | Some storedRefreshToken \<Rightarrow>
               if expiresAt storedRefreshToken < now
               then (Inl ''Refresh token expired'',
                     snd (removeRefreshToken refreshToken refreshTokens))
               else if jwt_type d \<noteq> ''refresh''
               then (Inl ''Invalid token type'', refreshTokens)
               else (Inr d, refreshTokens)))"

section \<open>A reference model of the token library\<close>

text \<open>
  A model of \<open>jsonwebtoken\<close> with a symmetric key, used for concrete runs of the program.
  A token is the key it was signed with and the claims it carries; \<open>jwt.sign\<close> stamps
  \<open>iat\<close> with the clock in whole seconds and \<open>exp\<close> with \<open>iat\<close> plus the span, and
  \<open>jwt.verify\<close> accepts a token signed with the verifier's key whose \<open>exp\<close> is after the
  clock in whole seconds. Signing is a function of the payload, the span and the second
  of the clock, as it is in the library (no nonce, no token identifier).
\<close>

datatype jwt = Jwt string decoded

definition span :: "string \<Rightarrow> nat" where
  "span expiresIn = (if expiresIn = ''15m'' then 15 * 60
                     else if expiresIn = ''7d'' then 7 * 24 * 60 * 60 else 0)"

definition hs_sign :: "string \<Rightarrow> jwt jwt_sign" where
  "hs_sign secret p expiresIn t =
     Jwt secret \<lparr>jwt_userId = jwt_userId p, jwt_email = jwt_email p, jwt_type = jwt_type p,
                 jwt_iat = t div 1000, jwt_exp = t div 1000 + span expiresIn\<rparr>"

definition hs_verify :: "string \<Rightarrow> jwt jwt_verify" where
  "hs_verify secret tok t =
     (case tok of Jwt k d \<Rightarrow> if k = secret \<and> t div 1000 < jwt_exp d then Some d else None)"

section \<open>The route handlers\<close>

text \<open>
  A row of the table \<open>users\<close> as the storage layer returns it. \<open>user_password = None\<close> is
  an object without the property \<open>password\<close>.
\<close>

record user =
  user_id :: nat
  user_email :: string
  user_password :: "string option"
  user_name :: string
  user_phone :: "string option"
  user_client_type :: "string option"
  user_created_at :: time
  user_last_login :: "time option"
  user_is_active :: bool

record userData =
  new_email :: string
  new_password :: string
  new_name :: string
  new_phone :: "string option"

text \<open>What an awaited call does: it throws an error with a message, or returns a value.\<close>

datatype 'a outcome = Throws string | Returns 'a

text \<open>
  The collaborators of the handlers: the token library, the storage layer (\<open>UserModel\<close>
  over the database; \<open>None\<close> is \<open>null\<close>), the password hashing of \<open>bcryptjs\<close> behind
  \<open>AuthService.hashPassword\<close> and \<open>AuthService.comparePassword\<close>, and the verdict of the
  regular expression of \<open>validateRegistration\<close>.
\<close>

record 'tok env =
  jwt_sign :: "'tok jwt_sign"
  jwt_verify :: "'tok jwt_verify"
  findByEmail :: "string \<Rightarrow> user option outcome"
  findById :: "nat \<Rightarrow> user option outcome"
  create :: "userData \<Rightarrow> user option outcome"
  updateLastLogin :: "nat \<Rightarrow> bool outcome"
  hashPassword :: "string \<Rightarrow> string outcome"
  comparePassword :: "string \<Rightarrow> string option \<Rightarrow> bool outcome"
  emailRegexTest :: "string \<Rightarrow> bool"

text \<open>The \<open>data\<close> member of a response body, and the response: status and body.\<close>

datatype 'tok data =
    Session user 'tok 'tok string string
  | Profile user
  | Access 'tok string

record 'tok response =
  status :: nat
  success :: bool
  message :: "string option"
  errors :: "string list option"
  data :: "'tok data option"

definition reply :: "nat \<Rightarrow> bool \<Rightarrow> string \<Rightarrow> 'tok response" where
  "reply st ok msg = \<lparr>status = st, success = ok, message = Some msg, errors = None, data = None\<rparr>"

text \<open>
  A field of a request body is absent (\<open>None\<close>) or a string; \<open>!field\<close> holds of an absent
  field and of the empty string.
\<close>

definition falsy :: "string option \<Rightarrow> bool" where
  "falsy v = (case v of None \<Rightarrow> True | Some s \<Rightarrow> s = [])"

definition validateRegistration ::
  "(string \<Rightarrow> bool) \<Rightarrow> string option \<Rightarrow> string option \<Rightarrow> string option \<Rightarrow> bool \<times> string list" where
  "validateRegistration re email password name =
     (let errors =
        (if falsy email then [''Email is required''] else []) @
        (if falsy password then [''Password is required''] else []) @
        (if falsy name then [''Name is required''] else []) @
        (case password of
           Some p \<Rightarrow> if p \<noteq> [] \<and> length p < 6
                     then [''Password must be at least 6 characters long''] else []
         | None \<Rightarrow> []) @
        (case email of
           Some e \<Rightarrow> if e \<noteq> [] \<and> \<not> re e then [''Invalid email format''] else []
         | None \<Rightarrow> [])
      in (errors = [], errors))"

definition validateLogin :: "string option \<Rightarrow> string option \<Rightarrow> bool \<times> string list" where
  "validateLogin email password =
     (let errors =
        (if falsy email then [''Email is required''] else []) @
        (if falsy password then [''Password is required''] else [])
      in (errors = [], errors))"

definition sanitizeUser :: "user \<Rightarrow> user" where
  "sanitizeUser u = u\<lparr>user_password := None\<rparr>"

text \<open>
  \<open>POST /register\<close>. A handler returns its response and the array \<open>refreshTokens\<close> after
  it. Anything thrown inside the \<open>try\<close> block ends in the status 500 of the \<open>catch\<close>
  block; reading a property of \<open>null\<close> or calling a method of \<open>undefined\<close> throws.
\<close>

definition register_handler ::
  "'tok env \<Rightarrow> string option \<Rightarrow> string option \<Rightarrow> string option \<Rightarrow> string option
     \<Rightarrow> time \<Rightarrow> time \<Rightarrow> time \<Rightarrow> time \<Rightarrow> 'tok store \<Rightarrow> 'tok response \<times> 'tok store" where
  "register_handler env email password name phone tA tR tC tE refreshTokens =
     (let validation = validateRegistration (emailRegexTest env) email password name;
          failed = reply 500 False ''Internal server error during registration''
      in if \<not> fst validation
         then (\<lparr>status = 400, success = False, message = Some ''Validation failed'',
                 errors = Some (snd validation), data = None\<rparr>, refreshTokens)
         else
           (case (email, password, name) of
              (Some e, Some p, Some n) \<Rightarrow>
                (case findByEmail env e of
                   Throws _ \<Rightarrow> (failed, refreshTokens)
                 | Returns (Some existingUser) \<Rightarrow>
                     (reply 409 False ''User with this email already exists'', refreshTokens)
                 | Returns None \<Rightarrow>
                     (case hashPassword env p of
                        Throws _ \<Rightarrow> (failed, refreshTokens)
                      | Returns hashedPassword \<Rightarrow>
                          (case create env \<lparr>new_email = e, new_password = hashedPassword,
                                             new_name = n, new_phone = phone\<rparr> of
                             Throws _ \<Rightarrow> (failed, refreshTokens)
                           | Returns None \<Rightarrow> (failed, refreshTokens)
                           | Returns (Some newUser) \<Rightarrow>
                               (case generateTokens (jwt_sign env) (user_id newUser)
                                       (user_email newUser) tA tR tC tE refreshTokens of
                                  ((accessToken, refreshToken), refreshTokens') \<Rightarrow>
                                    (\<lparr>status = 201, success = True,
                                      message = Some ''User registered successfully'',
                                      errors = None,
                                      data = Some (Session (sanitizeUser newUser) accessToken
                                                     refreshToken ''15m'' ''7d'')\<rparr>,
                                     refreshTokens')))))
            | _ \<Rightarrow> (failed, refreshTokens)))"

text \<open>\<open>POST /login\<close>.\<close>

definition login_handler ::
  "'tok env \<Rightarrow> string option \<Rightarrow> string option
     \<Rightarrow> time \<Rightarrow> time \<Rightarrow> time \<Rightarrow> time \<Rightarrow> 'tok store \<Rightarrow> 'tok response \<times> 'tok store" where
  "login_handler env email password tA tR tC tE refreshTokens =
     (let validation = validateLogin email password;
          failed = reply 500 False ''Internal server error during login''
      in if \<not> fst validation
         then (\<lparr>status = 400, success = False, message = Some ''Validation failed'',
                 errors = Some (snd validation), data = None\<rparr>, refreshTokens)
         else
           (case (email, password) of
              (Some e, Some p) \<Rightarrow>
                (case findByEmail env e of
                   Throws _ \<Rightarrow> (failed, refreshTokens)
                 | Returns None \<Rightarrow> (reply 401 False ''Invalid email or password'', refreshTokens)
                 | Returns (Some u) \<Rightarrow>
                     (case comparePassword env p (user_password u) of
                        Throws _ \<Rightarrow> (failed, refreshTokens)
                      | Returns isValidPassword \<Rightarrow>
                          if \<not> isValidPassword
                          then (reply 401 False ''Invalid email or password'', refreshTokens)
                          else
                            (case updateLastLogin env (user_id u) of
                               Throws _ \<Rightarrow> (failed, refreshTokens)
                             | Returns _ \<Rightarrow>
                                 (case generateTokens (jwt_sign env) (user_id u) (user_email u)
                                         tA tR tC tE refreshTokens of
                                    ((accessToken, refreshToken), refreshTokens') \<Rightarrow>
                                      (\<lparr>status = 200, success = True,
                                        message = Some ''Login successful'', errors = None,
                                        data = Some (Session (sanitizeUser u) accessToken
                                                       refreshToken ''15m'' ''7d'')\<rparr>,
                                       refreshTokens')))))
            | _ \<Rightarrow> (failed, refreshTokens)))"

text \<open>
  The middleware \<open>authenticateToken\<close>. Its argument is the second word of the
  \<open>Authorization\<close> header, \<open>None\<close> when the header is missing or has no second word. It
  answers itself (\<open>Inl\<close>) or passes the decoded token on as \<open>req.user\<close> (\<open>Inr\<close>).
\<close>

definition authenticateToken ::
  "'tok jwt_verify \<Rightarrow> 'tok option \<Rightarrow> time \<Rightarrow> 'tok response + decoded" where
  "authenticateToken vf bearer tv =
     (case bearer of
        None \<Rightarrow> Inl (reply 401 False ''Access token required'')
      | Some tok \<Rightarrow>
          (case vf tok tv of
             None \<Rightarrow> Inl (reply 403 False ''Invalid or expired token'')
           | Some d \<Rightarrow>
               if jwt_type d \<noteq> ''access'' then Inl (reply 403 False ''Invalid token type'')
               else Inr d))"

text \<open>\<open>GET /me\<close>, behind \<open>authenticateToken\<close>.\<close>

definition me_handler :: "'tok env \<Rightarrow> 'tok option \<Rightarrow> time \<Rightarrow> 'tok response" where
  "me_handler env bearer tv =
     (case authenticateToken (jwt_verify env) bearer tv of
        Inl r \<Rightarrow> r
      | Inr reqUser \<Rightarrow>
          (case findById env (jwt_userId reqUser) of
             Throws _ \<Rightarrow> reply 500 False ''Internal server error''
           | Returns None \<Rightarrow> reply 404 False ''User not found''
           | Returns (Some u) \<Rightarrow>
               \<lparr>status = 200, success = True, message = None, errors = None,
                data = Some (Profile (sanitizeUser u))\<rparr>))"

text \<open>
  \<open>POST /refresh\<close>. The body's \<open>refreshToken\<close> is absent or empty (\<open>None\<close>) or a token.
  \<open>tv\<close> and \<open>now\<close> are the clock readings of \<open>verifyRefreshToken\<close>, \<open>tS\<close> the one of the
  \<open>jwt.sign\<close> of the new access token. The \<open>catch\<close> block answers 403 with the message of
  whatever was thrown, or with a default when that message is empty.
\<close>

definition refresh_handler ::
  "'tok env \<Rightarrow> 'tok option \<Rightarrow> time \<Rightarrow> time \<Rightarrow> time \<Rightarrow> 'tok store
     \<Rightarrow> 'tok response \<times> 'tok store" where
  "refresh_handler env body_refreshToken tv now tS refreshTokens =
     (let caught = (\<lambda>msg. reply 403 False (if msg = [] then ''Invalid refresh token'' else msg))
      in case body_refreshToken of
           None \<Rightarrow> (reply 401 False ''Refresh token required'', refreshTokens)
         | Some refreshToken \<Rightarrow>
             (case verifyRefreshToken (jwt_verify env) refreshToken tv now refreshTokens of
                (Inl msg, refreshTokens') \<Rightarrow> (caught msg, refreshTokens')
              | (Inr d, refreshTokens') \<Rightarrow>
                  (case findById env (jwt_userId d) of
                     Throws msg \<Rightarrow> (caught msg, refreshTokens')
                   | Returns None \<Rightarrow> (reply 404 False ''User not found'', refreshTokens')
                   | Returns (Some u) \<Rightarrow>
                       (\<lparr>status = 200, success = True,
                         message = Some ''Access token refreshed successfully'', errors = None,
                         data = Some (Access (generateAccessToken (jwt_sign env) (user_id u)
                                                (user_email u) tS) ''15m'')\<rparr>,
                        refreshTokens'))))"

text \<open>\<open>POST /logout\<close>.\<close>

definition logout_handler :: "'tok option \<Rightarrow> 'tok store \<Rightarrow> 'tok response \<times> 'tok store" where
  "logout_handler body_refreshToken refreshTokens =
     (case body_refreshToken of
        None \<Rightarrow> (reply 200 True ''Logged out successfully'', refreshTokens)
      | Some refreshToken \<Rightarrow>
          (reply 200 True ''Logged out successfully'',
           snd (removeRefreshToken refreshToken refreshTokens)))"

text \<open>Decimal digits of a number, as a template literal prints it.\<close>

fun decimal :: "nat \<Rightarrow> string" where
  "decimal n = (if n < 10 then [char_of (48 + n)]
                else decimal (n div 10) @ [char_of (48 + n mod 10)])"

text \<open>\<open>POST /logout-all\<close>, behind \<open>authenticateToken\<close>.\<close>

definition logout_all_handler ::
  "'tok env \<Rightarrow> 'tok option \<Rightarrow> time \<Rightarrow> 'tok store \<Rightarrow> 'tok response \<times> 'tok store" where
  "logout_all_handler env bearer tv refreshTokens =
     (case authenticateToken (jwt_verify env) bearer tv of
        Inl r \<Rightarrow> (r, refreshTokens)
      | Inr reqUser \<Rightarrow>
          (case removeAllUserRefreshTokens (jwt_userId reqUser) refreshTokens of
             (removedCount, refreshTokens') \<Rightarrow>
               (reply 200 True (''Logged out from '' @ decimal removedCount
                                  @ '' devices successfully''),
                refreshTokens')))"

section \<open>Runs of the program\<close>

text \<open>
  The array \<open>refreshTokens\<close> is private to the module: it starts empty and changes only
  through \<open>generateTokens\<close> (registration and login), \<open>verifyRefreshToken\<close> (refresh),
  \<open>removeRefreshToken\<close> (logout) and \<open>removeAllUserRefreshTokens\<close> (logout from all
  devices). A run is a list of such calls, each with its arguments and clock readings.
\<close>

datatype 'tok event =
    Issue nat string time time time time
  | Refresh 'tok time time
  | Logout 'tok
  | LogoutAll nat

fun step :: "'tok jwt_sign \<Rightarrow> 'tok jwt_verify \<Rightarrow> 'tok event \<Rightarrow> 'tok store \<Rightarrow> 'tok store" where
  "step sg vf (Issue uid em tA tR tC tE) s = snd (generateTokens sg uid em tA tR tC tE s)"
| "step sg vf (Refresh tok tv now) s = snd (verifyRefreshToken vf tok tv now s)"
| "step sg vf (Logout tok) s = snd (removeRefreshToken tok s)"
| "step sg vf (LogoutAll uid) s = snd (removeAllUserRefreshTokens uid s)"

definition run :: "'tok jwt_sign \<Rightarrow> 'tok jwt_verify \<Rightarrow> 'tok event list \<Rightarrow> 'tok store" where
  "run sg vf evs = fold (step sg vf) evs []"

text \<open>
  What a run may assume of the two clock readings that \<open>generateTokens\<close> takes for the
  element it pushes, \<open>new Date()\<close> first and \<open>Date.now()\<close> after it: that the clock has not
  gone back between them, or that both return the same instant.
\<close>

fun issue_reads_ordered :: "'tok event \<Rightarrow> bool" where
  "issue_reads_ordered (Issue uid em tA tR tC tE) = (tC \<le> tE)"
| "issue_reads_ordered (Refresh tok tv now) = True"
| "issue_reads_ordered (Logout tok) = True"
| "issue_reads_ordered (LogoutAll uid) = True"

fun issue_reads_equal :: "'tok event \<Rightarrow> bool" where
  "issue_reads_equal (Issue uid em tA tR tC tE) = (tC = tE)"
| "issue_reads_equal (Refresh tok tv now) = True"
| "issue_reads_equal (Logout tok) = True"
| "issue_reads_equal (LogoutAll uid) = True"

text \<open>
  The element that an event pushes: \<open>issued_by sg e r\<close> holds when \<open>e\<close> is an issuance and
  \<open>r\<close> is the element its \<open>generateTokens\<close> appends.
\<close>

definition issued_by :: "'tok jwt_sign \<Rightarrow> 'tok event \<Rightarrow> 'tok refresh_record \<Rightarrow> bool" where
  "issued_by sg e r =
     (case e of
        Issue uid em tA tR tC tE \<Rightarrow>
          r = \<lparr>token = generateRefreshToken sg uid em tR, userId = uid,
                createdAt = tC, expiresAt = tE + sevenDays\<rparr>
      | _ \<Rightarrow> False)"

text \<open>
  What the library guarantees of \<open>jwt.sign\<close>: a token carries its payload, so equal tokens
  were signed for the same \<open>userId\<close>.
\<close>

definition sign_identifies_user :: "'tok jwt_sign \<Rightarrow> bool" where
  "sign_identifies_user sg =
     (\<forall>p e t p' e' t'. sg p e t = sg p' e' t' \<longrightarrow> jwt_userId p = jwt_userId p')"

text \<open>Elements of the array that carry the same token belong to the same user.\<close>

definition owner_consistent :: "'tok store \<Rightarrow> bool" where
  "owner_consistent s = (\<forall>x\<in>set s. \<forall>y\<in>set s. token x = token y \<longrightarrow> userId x = userId y)"

section \<open>A concrete environment\<close>

text \<open>
  An environment for concrete runs: the reference token library under the key \<open>''k''\<close>, a
  storage layer over a list of rows (\<open>findById\<close> selects no \<open>password\<close> column, and
  \<open>create\<close> returns what \<open>findById\<close> finds for the new row), and a hash that prefixes
  the password.
\<close>

definition demo_user :: user where
  "demo_user = \<lparr>user_id = 7, user_email = ''a@b.com'', user_password = Some ''hash:secret1'',
                 user_name = ''A'', user_phone = None, user_client_type = Some ''unknown'',
                 user_created_at = 0, user_last_login = None, user_is_active = True\<rparr>"

definition demo_env :: "user list \<Rightarrow> jwt env" where
  "demo_env users =
     \<lparr>jwt_sign = hs_sign ''k'',
      jwt_verify = hs_verify ''k'',
      findByEmail = (\<lambda>e. Returns (find (\<lambda>u. user_email u = e \<and> user_is_active u) users)),
      findById = (\<lambda>i. Returns (map_option (\<lambda>u. u\<lparr>user_password := None\<rparr>)
                                 (find (\<lambda>u. user_id u = i \<and> user_is_active u) users))),
      create = (\<lambda>d. Returns (Some \<lparr>user_id = Suc (length users), user_email = new_email d,
                                     user_password = None, user_name = new_name d,
                                     user_phone = new_phone d,
                                     user_client_type = Some ''unknown'', user_created_at = 0,
                                     user_last_login = None, user_is_active = True\<rparr>)),
      updateLastLogin = (\<lambda>i. Returns (i \<in> set (map user_id users))),
      hashPassword = (\<lambda>p. Returns (''hash:'' @ p)),
      comparePassword = (\<lambda>p h. Returns (h = Some (''hash:'' @ p))),
      emailRegexTest = (\<lambda>e. CHR ''@'' \<in> set e)\<rparr>"

text \<open>
  The tokens of a session issued to the user of \<open>demo_user\<close> when every clock reading is
  0, the array after that one issuance, and a token signed with another key.
\<close>

definition demo_access :: jwt where
  "demo_access = generateAccessToken (hs_sign ''k'') 7 ''a@b.com'' 0"

definition demo_refresh :: jwt where
  "demo_refresh = generateRefreshToken (hs_sign ''k'') 7 ''a@b.com'' 0"

definition demo_store :: "jwt store" where
  "demo_store = snd (generateTokens (hs_sign ''k'') 7 ''a@b.com'' 0 0 0 0 [])"

definition forged_refresh :: jwt where
  "forged_refresh = generateRefreshToken (hs_sign ''not k'') 7 ''a@b.com'' 0"

text \<open>A login of that user with the right password, every clock reading of it being \<open>t\<close>.\<close>

definition demo_login :: "time \<Rightarrow> jwt store \<Rightarrow> jwt response \<times> jwt store" where
  "demo_login t s =
     login_handler (demo_env [demo_user]) (Some ''a@b.com'') (Some ''secret1'') t t t t s"

text \<open>The user object that a response carries, if it carries one.\<close>

definition response_user :: "'tok response \<Rightarrow> user option" where
  "response_user r =
     (case data r of
        Some (Session u accessToken refreshToken e1 e2) \<Rightarrow> Some u
      | Some (Profile u) \<Rightarrow> Some u
      | Some (Access accessToken e1) \<Rightarrow> None
      | None \<Rightarrow> None)"

lemmas demo_eval =
  demo_access_def demo_refresh_def demo_store_def forged_refresh_def demo_env_def demo_user_def
  demo_login_def
  hs_sign_def hs_verify_def span_def sevenDays_def reply_def
  generateAccessToken_def generateRefreshToken_def generateTokens_def
  removeRefreshToken_def findIndex_def splice1_def verifyRefreshToken_def Let_def

section \<open>Removing one token\<close>

lemma findIndexFrom_none:
  "\<forall>x\<in>set xs. \<not> P x \<Longrightarrow> findIndexFrom P k xs = - 1"
  by (induction xs arbitrary: k) auto

lemma findIndexFrom_first:
  "\<forall>x\<in>set pre. \<not> P x \<Longrightarrow> P r \<Longrightarrow> findIndexFrom P k (pre @ r # post) = int (k + length pre)"
  by (induction pre arbitrary: k) auto

lemma removeRefreshToken_absent:
  assumes "\<forall>x\<in>set s. token x \<noteq> t"
  shows "removeRefreshToken t s = (False, s)"
  using findIndexFrom_none [of s "\<lambda>rt. token rt = t" 0] assms
  by (simp add: removeRefreshToken_def findIndex_def)

lemma removeRefreshToken_first:
  assumes "\<forall>x\<in>set pre. token x \<noteq> t" and "token r = t"
  shows "removeRefreshToken t (pre @ r # post) = (True, pre @ post)"
  using findIndexFrom_first [of pre "\<lambda>rt. token rt = t" r 0 post] assms
  by (simp add: removeRefreshToken_def findIndex_def splice1_def)

lemma first_occurrence:
  assumes "\<exists>x\<in>set s. P x"
  shows "\<exists>pre r post. s = pre @ r # post \<and> P r \<and> (\<forall>x\<in>set pre. \<not> P x)"
  using assms split_list_first_prop [of s P] by blast

text \<open>
  C10. One call of \<open>removeRefreshToken\<close> deletes at most one element. When some element
  carries the token, the call returns \<open>true\<close> and deletes the first such element only: the
  array is \<open>pre @ r # post\<close> with no element of \<open>pre\<close> carrying the token, and becomes
  \<open>pre @ post\<close>, one element shorter, everything else in place and in order. When no element
  carries the token, the call returns \<open>false\<close> and the array is unchanged.
\<close>

theorem removeRefreshToken_removes_first_only:
  "((\<exists>x\<in>set s. token x = t) \<longrightarrow>
      (\<exists>pre r post. s = pre @ r # post \<and> token r = t \<and> (\<forall>x\<in>set pre. token x \<noteq> t) \<and>
         removeRefreshToken t s = (True, pre @ post) \<and>
         Suc (length (snd (removeRefreshToken t s))) = length s)) \<and>
   ((\<forall>x\<in>set s. token x \<noteq> t) \<longrightarrow> removeRefreshToken t s = (False, s))"
proof (intro conjI impI)
  assume "\<exists>x\<in>set s. token x = t"
  then obtain pre r post where
    s: "s = pre @ r # post" and r: "token r = t" and pre: "\<forall>x\<in>set pre. token x \<noteq> t"
    using first_occurrence [of s "\<lambda>x. token x = t"] by blast
  have rm: "removeRefreshToken t s = (True, pre @ post)"
    unfolding s using pre r by (rule removeRefreshToken_first)
  have "Suc (length (snd (removeRefreshToken t s))) = length s"
    by (simp add: rm) (simp add: s)
  with s r pre rm
  show "\<exists>pre r post. s = pre @ r # post \<and> token r = t \<and> (\<forall>x\<in>set pre. token x \<noteq> t) \<and>
         removeRefreshToken t s = (True, pre @ post) \<and>
         Suc (length (snd (removeRefreshToken t s))) = length s"
    by blast
next
  assume "\<forall>x\<in>set s. token x \<noteq> t"
  then show "removeRefreshToken t s = (False, s)"
    by (rule removeRefreshToken_absent)
qed


theorem removeRefreshToken_removes_first_only_witness:
  "(\<exists>x\<in>set [\<lparr>token = ''a'', userId = 1, createdAt = 0, expiresAt = 9\<rparr>,
                \<lparr>token = ''b'', userId = 2, createdAt = 1, expiresAt = 9\<rparr>,
                \<lparr>token = ''b'', userId = 2, createdAt = 2, expiresAt = 9\<rparr>]. token x = ''b'') \<and>
   removeRefreshToken ''b''
      [\<lparr>token = ''a'', userId = 1, createdAt = 0, expiresAt = 9\<rparr>,
       \<lparr>token = ''b'', userId = 2, createdAt = 1, expiresAt = 9\<rparr>,
       \<lparr>token = ''b'', userId = 2, createdAt = 2, expiresAt = 9\<rparr>]
     = (True, [\<lparr>token = ''a'', userId = 1, createdAt = 0, expiresAt = 9\<rparr>,
               \<lparr>token = ''b'', userId = 2, createdAt = 2, expiresAt = 9\<rparr>]) \<and>
   removeRefreshToken ''c''
      [\<lparr>token = ''a'', userId = 1, createdAt = 0, expiresAt = 9\<rparr>]
     = (False, [\<lparr>token = ''a'', userId = 1, createdAt = 0, expiresAt = 9\<rparr>])"
  using removeRefreshToken_removes_first_only
          [of "[\<lparr>token = ''a'', userId = 1, createdAt = 0, expiresAt = 9\<rparr>,
                \<lparr>token = ''b'', userId = 2, createdAt = 1, expiresAt = 9\<rparr>,
                \<lparr>token = ''b'', userId = 2, createdAt = 2, expiresAt = 9\<rparr>]" "''b''"]
        removeRefreshToken_removes_first_only
          [of "[\<lparr>token = ''a'', userId = 1, createdAt = 0, expiresAt = 9\<rparr>]" "''c''"]
  by (simp add: removeRefreshToken_def findIndex_def splice1_def)

section \<open>Verifying a refresh token\<close>


lemma find_first:
  "\<forall>x\<in>set pre. \<not> P x \<Longrightarrow> P r \<Longrightarrow> find P (pre @ r # post) = Some r"
  by (induction pre) auto

lemma find_Some_split:
  "find P s = Some r \<Longrightarrow> \<exists>pre post. s = pre @ r # post \<and> P r \<and> (\<forall>x\<in>set pre. \<not> P x)"
proof (induction s)
  case Nil
  then show ?case by simp
next
  case (Cons a s)
  show ?case
  proof (cases "P a")
    case True
    with Cons.prems have "a = r" by simp
    with True have "a # s = [] @ r # s \<and> P r \<and> (\<forall>x\<in>set []. \<not> P x)" by simp
    then show ?thesis by blast
  next
    case False
    with Cons obtain pre post where "s = pre @ r # post" "P r" "\<forall>x\<in>set pre. \<not> P x"
      by auto
    with False have "a # s = (a # pre) @ r # post \<and> P r \<and> (\<forall>x\<in>set (a # pre). \<not> P x)"
      by simp
    then show ?thesis by blast
  qed
qed

lemma verify_invalid:
  "vf tok tv = None \<Longrightarrow>
   verifyRefreshToken vf tok tv now s = (Inl ''Invalid or expired refresh token'', s)"
  by (simp add: verifyRefreshToken_def)

lemma verify_absent:
  "vf tok tv = Some d \<Longrightarrow> \<forall>x\<in>set s. token x \<noteq> tok \<Longrightarrow>
   verifyRefreshToken vf tok tv now s = (Inl ''Refresh token not found'', s)"
  by (simp add: verifyRefreshToken_def find_None_iff [THEN iffD2])

lemma verify_expired:
  assumes "vf tok tv = Some d" "\<forall>x\<in>set pre. token x \<noteq> tok" "token r = tok" "expiresAt r < now"
  shows "verifyRefreshToken vf tok tv now (pre @ r # post) = (Inl ''Refresh token expired'', pre @ post)"
  using assms find_first [of pre "\<lambda>rt. token rt = tok" r post]
    removeRefreshToken_first [of pre tok r post]
  by (simp add: verifyRefreshToken_def)

lemma verify_live:
  assumes "vf tok tv = Some d" "\<forall>x\<in>set pre. token x \<noteq> tok" "token r = tok" "\<not> expiresAt r < now"
  shows "verifyRefreshToken vf tok tv now (pre @ r # post) =
           (if jwt_type d \<noteq> ''refresh'' then Inl ''Invalid token type'' else Inr d, pre @ r # post)"
  using assms find_first [of pre "\<lambda>rt. token rt = tok" r post]
  by (simp add: verifyRefreshToken_def)

text \<open>
  Every call of \<open>verifyRefreshToken\<close> either leaves the array as it is or takes the
  branch of the expired record.
\<close>

lemma verify_store_cases:
  "snd (verifyRefreshToken vf tok tv now s) = s \<or>
   (\<exists>d pre r post. vf tok tv = Some d \<and> s = pre @ r # post \<and> token r = tok \<and>
      (\<forall>x\<in>set pre. token x \<noteq> tok) \<and> expiresAt r < now \<and>
      verifyRefreshToken vf tok tv now s = (Inl ''Refresh token expired'', pre @ post))"
proof (cases "vf tok tv")
  case None
  then show ?thesis by (simp add: verify_invalid)
next
  case (Some d)
  show ?thesis
  proof (cases "find (\<lambda>rt. token rt = tok) s")
    case None
    then have "\<forall>x\<in>set s. token x \<noteq> tok" by (simp add: find_None_iff)
    with Some show ?thesis by (simp add: verify_absent)
  next
    case (Some r)
    then obtain pre post where
      s: "s = pre @ r # post" and r: "token r = tok" and pre: "\<forall>x\<in>set pre. token x \<noteq> tok"
      using find_Some_split [of "\<lambda>rt. token rt = tok" s r] by blast
    show ?thesis
    proof (cases "expiresAt r < now")
      case True
      with \<open>vf tok tv = Some d\<close> pre r
      have "verifyRefreshToken vf tok tv now (pre @ r # post) = (Inl ''Refresh token expired'', pre @ post)"
        by (intro verify_expired)
      with \<open>vf tok tv = Some d\<close> s r pre True show ?thesis by blast
    next
      case False
      with \<open>vf tok tv = Some d\<close> pre r
      have "snd (verifyRefreshToken vf tok tv now (pre @ r # post)) = pre @ r # post"
        by (simp add: verify_live)
      then show ?thesis by (simp add: s)
    qed
  qed
qed

lemma refresh_handler_verify_error:
  "verifyRefreshToken (jwt_verify env) tok tv now s = (Inl msg, s') \<Longrightarrow> msg \<noteq> [] \<Longrightarrow>
   refresh_handler env (Some tok) tv now tS s = (reply 403 False msg, s')"
  by (simp add: refresh_handler_def)

lemma refresh_handler_store:
  "snd (refresh_handler env (Some tok) tv now tS s) = snd (verifyRefreshToken (jwt_verify env) tok tv now s)"
  by (simp add: refresh_handler_def split: prod.splits sum.splits outcome.splits option.splits)

lemma refresh_handler_no_token:
  "refresh_handler env None tv now tS s = (reply 401 False ''Refresh token required'', s)"
  by (simp add: refresh_handler_def)

text \<open>
  C9. A call of \<open>POST /refresh\<close> whose token \<open>jwt.verify\<close> rejects answers 403
  ``Invalid or expired refresh token'' and leaves the array \<open>refreshTokens\<close> as it is; a
  call whose token \<open>jwt.verify\<close> accepts but no element of the array carries answers 403
  ``Refresh token not found'' and leaves the array as it is. Whenever a call of the handler
  changes the array at all, it is the branch of the expired record: the token was accepted
  by \<open>jwt.verify\<close>, the first element carrying it had \<open>expiresAt\<close> before \<open>now\<close>, exactly
  that element was deleted, and the answer is 403 ``Refresh token expired''.
\<close>

theorem refresh_failure_store_effect:
  "(jwt_verify env tok tv = None \<longrightarrow>
      refresh_handler env (Some tok) tv now tS s =
        (reply 403 False ''Invalid or expired refresh token'', s)) \<and>
   (jwt_verify env tok tv \<noteq> None \<longrightarrow> (\<forall>x\<in>set s. token x \<noteq> tok) \<longrightarrow>
      refresh_handler env (Some tok) tv now tS s =
        (reply 403 False ''Refresh token not found'', s)) \<and>
   (snd (refresh_handler env body tv now tS s) \<noteq> s \<longrightarrow>
      (\<exists>tok d pre r post. body = Some tok \<and> jwt_verify env tok tv = Some d \<and>
         s = pre @ r # post \<and> token r = tok \<and> (\<forall>x\<in>set pre. token x \<noteq> tok) \<and>
         expiresAt r < now \<and>
         refresh_handler env body tv now tS s =
           (reply 403 False ''Refresh token expired'', pre @ post)))"
proof (intro conjI impI)
  assume "jwt_verify env tok tv = None"
  then show "refresh_handler env (Some tok) tv now tS s =
        (reply 403 False ''Invalid or expired refresh token'', s)"
    by (simp add: refresh_handler_verify_error verify_invalid)
next
  assume "jwt_verify env tok tv \<noteq> None" and "\<forall>x\<in>set s. token x \<noteq> tok"
  then show "refresh_handler env (Some tok) tv now tS s =
        (reply 403 False ''Refresh token not found'', s)"
    by (auto simp add: refresh_handler_verify_error verify_absent)
next
  assume changed: "snd (refresh_handler env body tv now tS s) \<noteq> s"
  then obtain tok where body: "body = Some tok"
    by (cases body) (auto simp: refresh_handler_no_token)
  with changed have "snd (verifyRefreshToken (jwt_verify env) tok tv now s) \<noteq> s"
    by (simp add: refresh_handler_store)
  with verify_store_cases [of "jwt_verify env" tok tv now s]
  obtain d pre r post where
    *: "jwt_verify env tok tv = Some d" "s = pre @ r # post" "token r = tok"
       "\<forall>x\<in>set pre. token x \<noteq> tok" "expiresAt r < now"
       "verifyRefreshToken (jwt_verify env) tok tv now s = (Inl ''Refresh token expired'', pre @ post)"
    by blast
  from *(6) have "refresh_handler env (Some tok) tv now tS s = (reply 403 False ''Refresh token expired'', pre @ post)"
    by (simp add: refresh_handler_verify_error)
  with body * show "\<exists>tok d pre r post. body = Some tok \<and> jwt_verify env tok tv = Some d \<and>
         s = pre @ r # post \<and> token r = tok \<and> (\<forall>x\<in>set pre. token x \<noteq> tok) \<and>
         expiresAt r < now \<and>
         refresh_handler env body tv now tS s =
           (reply 403 False ''Refresh token expired'', pre @ post)"
    by blast
qed


theorem refresh_failure_store_effect_witness:
  "refresh_handler (demo_env [demo_user]) (Some forged_refresh) 5000 5000 5000 demo_store =
     (reply 403 False ''Invalid or expired refresh token'', demo_store) \<and>
   refresh_handler (demo_env [demo_user]) (Some demo_refresh) 5000 5000 5000 [] =
     (reply 403 False ''Refresh token not found'', []) \<and>
   snd (refresh_handler (demo_env [demo_user]) (Some demo_refresh) 604799999 604800001 604800001
          demo_store) \<noteq> demo_store \<and>
   refresh_handler (demo_env [demo_user]) (Some demo_refresh) 604799999 604800001 604800001
          demo_store = (reply 403 False ''Refresh token expired'', [])"
proof -
  let ?E = "demo_env [demo_user]"
  have h1: "jwt_verify ?E forged_refresh 5000 = None"
    by (simp add: demo_eval)
  have h2: "jwt_verify ?E demo_refresh 5000 \<noteq> None"
    by (simp add: demo_eval)
  have h2': "\<forall>x\<in>set ([] :: jwt store). token x \<noteq> demo_refresh"
    by simp
  have h3: "snd (refresh_handler ?E (Some demo_refresh) 604799999 604800001 604800001 demo_store)
              \<noteq> demo_store"
    by (simp add: refresh_handler_def demo_eval)
  from refresh_failure_store_effect
         [where env = ?E and tok = forged_refresh and tv = 5000 and now = 5000 and tS = 5000
            and s = demo_store] h1
  have c1: "refresh_handler ?E (Some forged_refresh) 5000 5000 5000 demo_store =
     (reply 403 False ''Invalid or expired refresh token'', demo_store)"
    by blast
  from refresh_failure_store_effect
         [where env = ?E and tok = demo_refresh and tv = 5000 and now = 5000 and tS = 5000
            and s = "[]"] h2 h2'
  have c2: "refresh_handler ?E (Some demo_refresh) 5000 5000 5000 [] =
     (reply 403 False ''Refresh token not found'', [])"
    by blast
  from refresh_failure_store_effect
         [where env = ?E and body = "Some demo_refresh" and tv = 604799999
            and now = 604800001 and tS = 604800001 and s = demo_store] h3
  obtain pre r post where split: "demo_store = pre @ r # post" and
    res: "refresh_handler ?E (Some demo_refresh) 604799999 604800001 604800001 demo_store =
       (reply 403 False ''Refresh token expired'', pre @ post)"
    by blast
  have "length demo_store = 1"
    by (simp add: demo_eval)
  moreover from split have "length demo_store = length (pre @ r # post)"
    by (rule arg_cong)
  ultimately have "pre @ post = []"
    by simp
  with res have c3:
    "refresh_handler ?E (Some demo_refresh) 604799999 604800001 604800001 demo_store =
       (reply 403 False ''Refresh token expired'', [])"
    by simp
  from c1 c2 h3 c3 show ?thesis by blast
qed

section \<open>Lazy expiry\<close>

lemma verify_keeps_other_tokens:
  "filter (\<lambda>x. token x \<noteq> tok) (snd (verifyRefreshToken vf tok tv now s)) =
   filter (\<lambda>x. token x \<noteq> tok) s"
  using verify_store_cases [of vf tok tv now s] by auto

text \<open>
  C4. When \<open>jwt.verify\<close> accepts the token and the element that the lookup finds for it
  (the first one carrying the token) has \<open>expiresAt\<close> before \<open>now\<close>, \<open>POST /refresh\<close> deletes
  exactly that element and answers 403 ``Refresh token expired''. Nothing is swept: a call
  of the handler for a token keeps every element that carries another token, whatever its
  \<open>expiresAt\<close>, in place and in order; a call without a token changes nothing; and issuing
  a session only appends one element.
\<close>

theorem refresh_expired_record_purged:
  "(jwt_verify env tok tv = Some d \<longrightarrow> find (\<lambda>rt. token rt = tok) s = Some r \<longrightarrow>
      expiresAt r < now \<longrightarrow>
      (\<exists>pre post. s = pre @ r # post \<and> (\<forall>x\<in>set pre. token x \<noteq> tok) \<and>
         refresh_handler env (Some tok) tv now tS s =
           (reply 403 False ''Refresh token expired'', pre @ post))) \<and>
   filter (\<lambda>x. token x \<noteq> tok) (snd (refresh_handler env (Some tok) tv now tS s)) =
     filter (\<lambda>x. token x \<noteq> tok) s \<and>
   snd (refresh_handler env None tv now tS s) = s \<and>
   (\<exists>new. snd (generateTokens sg uid em tA tR tC tE s) = s @ [new])"
proof (intro conjI impI)
  assume v: "jwt_verify env tok tv = Some d"
    and f: "find (\<lambda>rt. token rt = tok) s = Some r"
    and e: "expiresAt r < now"
  from f obtain pre post where
    s: "s = pre @ r # post" and r: "token r = tok" and pre: "\<forall>x\<in>set pre. token x \<noteq> tok"
    using find_Some_split [of "\<lambda>rt. token rt = tok" s r] by blast
  from v pre r e
  have "verifyRefreshToken (jwt_verify env) tok tv now (pre @ r # post) =
          (Inl ''Refresh token expired'', pre @ post)"
    by (rule verify_expired)
  then have "refresh_handler env (Some tok) tv now tS s =
          (reply 403 False ''Refresh token expired'', pre @ post)"
    unfolding s by (simp add: refresh_handler_verify_error)
  with s pre
  show "\<exists>pre post. s = pre @ r # post \<and> (\<forall>x\<in>set pre. token x \<noteq> tok) \<and>
         refresh_handler env (Some tok) tv now tS s =
           (reply 403 False ''Refresh token expired'', pre @ post)"
    by blast
next
  show "filter (\<lambda>x. token x \<noteq> tok) (snd (refresh_handler env (Some tok) tv now tS s)) =
     filter (\<lambda>x. token x \<noteq> tok) s"
    by (simp add: refresh_handler_store verify_keeps_other_tokens)
next
  show "snd (refresh_handler env None tv now tS s) = s"
    by (simp add: refresh_handler_no_token)
next
  show "\<exists>new. snd (generateTokens sg uid em tA tR tC tE s) = s @ [new]"
    by (simp add: generateTokens_def Let_def)
qed

theorem refresh_expired_record_purged_witness:
  "jwt_verify (demo_env [demo_user]) demo_refresh 604799999 =
     Some \<lparr>jwt_userId = 7, jwt_email = ''a@b.com'', jwt_type = ''refresh'',
           jwt_iat = 0, jwt_exp = 604800\<rparr> \<and>
   find (\<lambda>rt. token rt = demo_refresh) demo_store =
     Some \<lparr>token = demo_refresh, userId = 7, createdAt = 0, expiresAt = 604800000\<rparr> \<and>
   refresh_handler (demo_env [demo_user]) (Some demo_refresh) 604799999 604800001 604800001
          demo_store = (reply 403 False ''Refresh token expired'', [])"
proof -
  let ?E = "demo_env [demo_user]"
  let ?d = "\<lparr>jwt_userId = 7, jwt_email = ''a@b.com'', jwt_type = ''refresh'',
           jwt_iat = 0, jwt_exp = 604800\<rparr>"
  let ?r = "\<lparr>token = demo_refresh, userId = 7, createdAt = 0, expiresAt = 604800000\<rparr>"
  have h1: "jwt_verify ?E demo_refresh 604799999 = Some ?d"
    by (simp add: demo_eval)
  have st: "demo_store = [?r]"
    by (simp add: demo_eval)
  have h2: "find (\<lambda>rt. token rt = demo_refresh) demo_store = Some ?r"
    by (simp add: st)
  have h3: "expiresAt ?r < 604800001"
    by simp
  from refresh_expired_record_purged
         [where env = ?E and tok = demo_refresh and tv = 604799999 and d = ?d
            and s = demo_store and r = ?r and now = 604800001 and tS = 604800001] h1 h2 h3
  obtain pre post where split: "demo_store = pre @ ?r # post" and
    res: "refresh_handler ?E (Some demo_refresh) 604799999 604800001 604800001 demo_store =
       (reply 403 False ''Refresh token expired'', pre @ post)"
    by blast
  have "length demo_store = 1"
    unfolding st by simp
  moreover from split have "length demo_store = length (pre @ ?r # post)"
    by (rule arg_cong)
  ultimately have "pre @ post = []"
    by simp
  with res have
    "refresh_handler ?E (Some demo_refresh) 604799999 604800001 604800001 demo_store =
       (reply 403 False ''Refresh token expired'', [])"
    by simp
  with h1 h2 show ?thesis by blast
qed

text \<open>
  With the reference library the branch is narrow. The token of a stored element expires,
  in whole seconds, no later than the element itself when the clock did not go back during
  the issuance; so the branch is taken only when the clock passes the element's
  \<open>expiresAt\<close> between the reading of \<open>jwt.verify\<close> and the reading of the expiry test.
  A later call is refused by \<open>jwt.verify\<close>, and the element stays in the array.
\<close>

lemma expired_branch_needs_clock_to_cross:
  assumes "hs_verify k (generateRefreshToken (hs_sign k) uid em tR) tv = Some d"
    and "tR \<le> tE" and "tE + sevenDays < now"
  shows "tv < now"
proof -
  from assms(1) have "tv div 1000 < tR div 1000 + 604800"
    by (simp add: hs_verify_def hs_sign_def generateRefreshToken_def span_def split: if_splits)
  then have "tv < tR + 604800000"
    by arith
  with assms(2,3) show ?thesis
    by (simp add: sevenDays_def)
qed

section \<open>Tokens of another type\<close>

text \<open>
  C3, as the code has it. A token that \<open>jwt.verify\<close> accepts and whose \<open>type\<close> is not
  \<open>refresh\<close> is always refused by \<open>POST /refresh\<close> with status 403 and no access token,
  but the type is the last thing tested: the array is looked up first. When no element
  carries the token the answer is ``Refresh token not found''; when the first element
  carrying it has expired, that element is deleted and the answer is ``Refresh token
  expired''; only otherwise is the answer ``Invalid token type''.
\<close>

theorem refresh_wrong_kind_rejected:
  assumes "jwt_verify env tok tv = Some d" and "jwt_type d \<noteq> ''refresh''"
  shows "refresh_handler env (Some tok) tv now tS s =
     (case find (\<lambda>rt. token rt = tok) s of
        None \<Rightarrow> (reply 403 False ''Refresh token not found'', s)
      | Some r \<Rightarrow>
          if expiresAt r < now
          then (reply 403 False ''Refresh token expired'', snd (removeRefreshToken tok s))
          else (reply 403 False ''Invalid token type'', s))"
  using assms by (simp add: refresh_handler_def verifyRefreshToken_def split: option.splits)

theorem refresh_wrong_kind_rejected_witness:
  "refresh_handler (demo_env [demo_user]) (Some demo_access) 1000 1000 1000 demo_store =
     (reply 403 False ''Refresh token not found'', demo_store)"
proof -
  let ?E = "demo_env [demo_user]"
  let ?d = "\<lparr>jwt_userId = 7, jwt_email = ''a@b.com'', jwt_type = ''access'',
           jwt_iat = 0, jwt_exp = 900\<rparr>"
  have h1: "jwt_verify ?E demo_access 1000 = Some ?d"
    by (simp add: demo_eval)
  have h2: "jwt_type ?d \<noteq> ''refresh''"
    by simp
  have "find (\<lambda>rt. token rt = demo_access) demo_store = None"
    by (simp add: demo_eval)
  with refresh_wrong_kind_rejected [OF h1 h2, of 1000 1000 demo_store]
  show ?thesis by simp
qed

text \<open>
  The claim as the specification states it fails: the access token of a session, accepted
  by \<open>jwt.verify\<close>, is refused with ``Refresh token not found'', the answer of the array
  lookup, and not with ``Invalid or expired refresh token''.
\<close>

theorem access_token_rejected_by_store_lookup:
  "jwt_verify (demo_env [demo_user]) demo_access 1000 =
     Some \<lparr>jwt_userId = 7, jwt_email = ''a@b.com'', jwt_type = ''access'',
           jwt_iat = 0, jwt_exp = 900\<rparr> \<and>
   fst (refresh_handler (demo_env [demo_user]) (Some demo_access) 1000 1000 1000 demo_store) =
     reply 403 False ''Refresh token not found'' \<and>
   fst (refresh_handler (demo_env [demo_user]) (Some demo_access) 1000 1000 1000 demo_store) \<noteq>
     reply 403 False ''Invalid or expired refresh token''"
  by (simp add: refresh_handler_def demo_eval)

section \<open>Logging out\<close>

text \<open>
  C1. The claim: once \<open>POST /logout\<close> has been called with a refresh token, \<open>POST /refresh\<close>
  with that token fails and issues no access token. The code does not keep it when the
  array holds the token twice. \<open>jwt.sign\<close> is a function of the payload and of the second
  of the clock, so two logins of one user within one second (here at 0 ms and at 400 ms)
  obtain the same refresh token and \<open>push\<close> two elements carrying it. \<open>removeRefreshToken\<close>
  deletes the first of them only; after the logout the second is still found, and the
  refresh at 2000 ms answers 200 with a new access token.
\<close>

theorem logout_leaves_duplicate_token_valid:
  "data (fst (demo_login 0 [])) =
     Some (Session (sanitizeUser demo_user) demo_access demo_refresh ''15m'' ''7d'') \<and>
   data (fst (demo_login 400 (snd (demo_login 0 [])))) =
     Some (Session (sanitizeUser demo_user) demo_access demo_refresh ''15m'' ''7d'') \<and>
   logout_handler (Some demo_refresh) (snd (demo_login 400 (snd (demo_login 0 [])))) =
     (reply 200 True ''Logged out successfully'',
      [\<lparr>token = demo_refresh, userId = 7, createdAt = 400, expiresAt = 400 + sevenDays\<rparr>]) \<and>
   refresh_handler (demo_env [demo_user]) (Some demo_refresh) 2000 2000 2000
      [\<lparr>token = demo_refresh, userId = 7, createdAt = 400, expiresAt = 400 + sevenDays\<rparr>] =
     (\<lparr>status = 200, success = True, message = Some ''Access token refreshed successfully'',
       errors = None,
       data = Some (Access (generateAccessToken (hs_sign ''k'') 7 ''a@b.com'' 2000) ''15m'')\<rparr>,
      [\<lparr>token = demo_refresh, userId = 7, createdAt = 400, expiresAt = 400 + sevenDays\<rparr>])"
  by (simp add: login_handler_def validateLogin_def falsy_def logout_handler_def
        refresh_handler_def sanitizeUser_def demo_eval)

section \<open>Refreshing after a session was issued\<close>

lemma refresh_handler_success:
  assumes "jwt_verify env tok tv = Some d" and "jwt_type d = ''refresh''"
    and "find (\<lambda>rt. token rt = tok) s = Some stored" and "\<not> expiresAt stored < now"
  shows "refresh_handler env (Some tok) tv now tS s =
     (case findById env (jwt_userId d) of
        Throws msg \<Rightarrow> (reply 403 False (if msg = [] then ''Invalid refresh token'' else msg), s)
      | Returns None \<Rightarrow> (reply 404 False ''User not found'', s)
      | Returns (Some u) \<Rightarrow>
          (\<lparr>status = 200, success = True,
            message = Some ''Access token refreshed successfully'', errors = None,
            data = Some (Access (generateAccessToken (jwt_sign env) (user_id u)
                                   (user_email u) tS) ''15m'')\<rparr>, s))"
  using assms
  by (simp add: refresh_handler_def verifyRefreshToken_def split: outcome.splits option.splits)

lemma find_live:
  assumes "\<forall>x\<in>set s. P x \<longrightarrow> Q x" and "\<exists>x\<in>set s. P x"
  shows "\<exists>r. find P s = Some r \<and> Q r"
  using assms by (induction s) auto

text \<open>
  C5, as the code has it. A session is issued for \<open>uid\<close> and \<open>em\<close> (\<open>generateTokens\<close>), and
  \<open>POST /refresh\<close> is called twice with its refresh token \<open>r\<close>, at instants when
  \<open>jwt.verify\<close> accepts \<open>r\<close> as a refresh token of \<open>uid\<close> and no element carrying \<open>r\<close> has
  expired. The handler looks the user up before it signs anything. When \<open>findById\<close>
  returns the row of that user, both calls answer 200 with an access token signed for
  exactly \<open>uid\<close>, \<open>em\<close> and the type \<open>access\<close>, and the array is as it was after the
  issuance: the element of \<open>r\<close> is neither deleted nor replaced. When \<open>findById\<close> returns
  \<open>null\<close>, the call answers 404 ``User not found'', issues nothing and leaves the array
  as it is.
\<close>

theorem refresh_after_issue:
  assumes issue: "generateTokens (jwt_sign env) uid em tA tR tC tE s = ((a, r), s')"
    and v1: "jwt_verify env r tv = Some d" and v2: "jwt_verify env r tv2 = Some d"
    and ty: "jwt_type d = ''refresh''" and sub: "jwt_userId d = uid"
    and live: "\<forall>x\<in>set s'. token x = r \<longrightarrow> now \<le> expiresAt x \<and> now2 \<le> expiresAt x"
  shows "(\<forall>u. findById env uid = Returns (Some u) \<and> user_id u = uid \<and> user_email u = em \<longrightarrow>
            refresh_handler env (Some r) tv now tS s' =
              (\<lparr>status = 200, success = True,
                message = Some ''Access token refreshed successfully'', errors = None,
                data = Some (Access (jwt_sign env \<lparr>jwt_userId = uid, jwt_email = em,
                                                   jwt_type = ''access''\<rparr> ''15m'' tS) ''15m'')\<rparr>,
               s') \<and>
            refresh_handler env (Some r) tv2 now2 tS2
                (snd (refresh_handler env (Some r) tv now tS s')) =
              (\<lparr>status = 200, success = True,
                message = Some ''Access token refreshed successfully'', errors = None,
                data = Some (Access (jwt_sign env \<lparr>jwt_userId = uid, jwt_email = em,
                                                   jwt_type = ''access''\<rparr> ''15m'' tS2) ''15m'')\<rparr>,
               s')) \<and>
         (findById env uid = Returns None \<longrightarrow>
            refresh_handler env (Some r) tv now tS s' = (reply 404 False ''User not found'', s'))"
proof -
  from issue have s': "s' = s @ [\<lparr>token = r, userId = uid, createdAt = tC,
                                   expiresAt = tE + sevenDays\<rparr>]"
    by (auto simp: generateTokens_def Let_def)
  then have "\<exists>x\<in>set s'. token x = r"
    by simp
  with live obtain st where
    f: "find (\<lambda>rt. token rt = r) s' = Some st" and st: "now \<le> expiresAt st \<and> now2 \<le> expiresAt st"
    using find_live [of s' "\<lambda>rt. token rt = r" "\<lambda>x. now \<le> expiresAt x \<and> now2 \<le> expiresAt x"]
    by blast
  from st have n1: "\<not> expiresAt st < now" and n2: "\<not> expiresAt st < now2"
    by auto
  note r1 = refresh_handler_success [OF v1 ty f n1, of tS]
  note r2 = refresh_handler_success [OF v2 ty f n2, of tS2]
  show ?thesis
    by (intro conjI allI impI)
       (simp_all add: r1 r2 sub generateAccessToken_def)
qed


theorem refresh_after_issue_witness:
  "refresh_handler (demo_env [demo_user]) (Some demo_refresh) 1000 1000 1000 demo_store =
     (\<lparr>status = 200, success = True, message = Some ''Access token refreshed successfully'',
       errors = None,
       data = Some (Access (hs_sign ''k'' \<lparr>jwt_userId = 7, jwt_email = ''a@b.com'',
                                          jwt_type = ''access''\<rparr> ''15m'' 1000) ''15m'')\<rparr>,
      demo_store) \<and>
   refresh_handler (demo_env [demo_user]) (Some demo_refresh) 5000 5000 5000
       (snd (refresh_handler (demo_env [demo_user]) (Some demo_refresh) 1000 1000 1000
               demo_store)) =
     (\<lparr>status = 200, success = True, message = Some ''Access token refreshed successfully'',
       errors = None,
       data = Some (Access (hs_sign ''k'' \<lparr>jwt_userId = 7, jwt_email = ''a@b.com'',
                                          jwt_type = ''access''\<rparr> ''15m'' 5000) ''15m'')\<rparr>,
      demo_store) \<and>
   hs_verify ''k'' (hs_sign ''k'' \<lparr>jwt_userId = 7, jwt_email = ''a@b.com'',
                                  jwt_type = ''access''\<rparr> ''15m'' 1000) 1000 =
     Some \<lparr>jwt_userId = 7, jwt_email = ''a@b.com'', jwt_type = ''access'',
           jwt_iat = 1, jwt_exp = 901\<rparr> \<and>
   refresh_handler (demo_env []) (Some demo_refresh) 1000 1000 1000 demo_store =
     (reply 404 False ''User not found'', demo_store)"
proof -
  let ?E = "demo_env [demo_user]"
  let ?d = "\<lparr>jwt_userId = 7, jwt_email = ''a@b.com'', jwt_type = ''refresh'',
             jwt_iat = 0, jwt_exp = 604800\<rparr>"
  let ?u = "demo_user\<lparr>user_password := None\<rparr>"
  have sg: "jwt_sign ?E = hs_sign ''k''" "jwt_sign (demo_env []) = hs_sign ''k''"
    by (simp_all add: demo_env_def)
  have issue: "generateTokens (jwt_sign ?E) 7 ''a@b.com'' 0 0 0 0 [] =
                 ((demo_access, demo_refresh), demo_store)"
    "generateTokens (jwt_sign (demo_env [])) 7 ''a@b.com'' 0 0 0 0 [] =
                 ((demo_access, demo_refresh), demo_store)"
    by (simp_all add: demo_eval)
  have v: "jwt_verify ?E demo_refresh 1000 = Some ?d" "jwt_verify ?E demo_refresh 5000 = Some ?d"
    "jwt_verify (demo_env []) demo_refresh 1000 = Some ?d"
    by (simp_all add: demo_eval)
  have ty: "jwt_type ?d = ''refresh''" and sub: "jwt_userId ?d = 7"
    by simp_all
  have live: "\<forall>x\<in>set demo_store. token x = demo_refresh \<longrightarrow>
                1000 \<le> expiresAt x \<and> 5000 \<le> expiresAt x"
    "\<forall>x\<in>set demo_store. token x = demo_refresh \<longrightarrow>
                1000 \<le> expiresAt x \<and> 1000 \<le> expiresAt x"
    by (simp_all add: demo_eval)
  have db: "findById ?E 7 = Returns (Some ?u) \<and> user_id ?u = 7 \<and> user_email ?u = ''a@b.com''"
    by (simp add: demo_eval)
  have nodb: "findById (demo_env []) 7 = Returns None"
    by (simp add: demo_eval)
  from refresh_after_issue [OF issue(1) v(1) v(2) ty sub live(1), of 1000 5000] db
  have ok: "refresh_handler ?E (Some demo_refresh) 1000 1000 1000 demo_store =
     (\<lparr>status = 200, success = True, message = Some ''Access token refreshed successfully'',
       errors = None,
       data = Some (Access (jwt_sign ?E \<lparr>jwt_userId = 7, jwt_email = ''a@b.com'',
                                          jwt_type = ''access''\<rparr> ''15m'' 1000) ''15m'')\<rparr>,
      demo_store) \<and>
   refresh_handler ?E (Some demo_refresh) 5000 5000 5000
       (snd (refresh_handler ?E (Some demo_refresh) 1000 1000 1000 demo_store)) =
     (\<lparr>status = 200, success = True, message = Some ''Access token refreshed successfully'',
       errors = None,
       data = Some (Access (jwt_sign ?E \<lparr>jwt_userId = 7, jwt_email = ''a@b.com'',
                                          jwt_type = ''access''\<rparr> ''15m'' 5000) ''15m'')\<rparr>,
      demo_store)"
    by blast
  from refresh_after_issue [OF issue(2) v(3) v(3) ty sub live(2), of 1000 1000] nodb
  have gone: "refresh_handler (demo_env []) (Some demo_refresh) 1000 1000 1000 demo_store =
     (reply 404 False ''User not found'', demo_store)"
    by blast
  have dec: "hs_verify ''k'' (hs_sign ''k'' \<lparr>jwt_userId = 7, jwt_email = ''a@b.com'',
                                  jwt_type = ''access''\<rparr> ''15m'' 1000) 1000 =
     Some \<lparr>jwt_userId = 7, jwt_email = ''a@b.com'', jwt_type = ''access'',
           jwt_iat = 1, jwt_exp = 901\<rparr>"
    by (simp add: demo_eval)
  from ok gone dec show ?thesis
    unfolding sg by blast
qed

text \<open>
  The claim as the specification states it fails: a session is issued to the user, the
  user is deactivated, and the refresh with the token just issued, which \<open>jwt.verify\<close>
  accepts and the array holds unexpired, answers 404 and issues no access token.
\<close>

theorem refresh_after_deactivation_fails:
  "generateTokens (jwt_sign (demo_env [demo_user])) 7 ''a@b.com'' 0 0 0 0 [] =
     ((demo_access, demo_refresh), demo_store) \<and>
   refresh_handler (demo_env [demo_user\<lparr>user_is_active := False\<rparr>]) (Some demo_refresh)
       1000 1000 1000 demo_store =
     (reply 404 False ''User not found'', demo_store)"
  by (simp add: refresh_handler_def demo_eval)

section \<open>User objects in responses\<close>

lemma register_no_password:
  "response_user (fst (register_handler env email password name phone tA tR tC tE s)) = Some u
   \<Longrightarrow> user_password u = None"
  by (auto simp: register_handler_def response_user_def reply_def sanitizeUser_def Let_def
           split: if_splits option.splits outcome.splits prod.splits)

lemma login_no_password:
  "response_user (fst (login_handler env email password tA tR tC tE s)) = Some u
   \<Longrightarrow> user_password u = None"
  by (auto simp: login_handler_def response_user_def reply_def sanitizeUser_def Let_def
           split: if_splits option.splits outcome.splits prod.splits)

lemma me_no_password:
  "response_user (me_handler env bearer tv) = Some u \<Longrightarrow> user_password u = None"
  by (auto simp: me_handler_def authenticateToken_def response_user_def reply_def
                 sanitizeUser_def
           split: if_splits option.splits outcome.splits sum.splits)

lemma refresh_no_user:
  "response_user (fst (refresh_handler env body tv now tS s)) = None"
  by (auto simp: refresh_handler_def response_user_def reply_def Let_def
           split: option.splits outcome.splits prod.splits sum.splits)

lemma logout_no_user:
  "response_user (fst (logout_handler body s)) = None"
  by (auto simp: logout_handler_def response_user_def reply_def split: option.splits)

lemma logout_all_no_user:
  "response_user (fst (logout_all_handler env bearer tv s)) = None"
  by (auto simp: logout_all_handler_def authenticateToken_def response_user_def reply_def
           split: option.splits prod.splits sum.splits)

text \<open>
  C7. Whatever the collaborators return, a user object in a response of \<open>POST /register\<close>,
  \<open>POST /login\<close> or \<open>GET /me\<close> has no \<open>password\<close> property, and the responses of
  \<open>POST /refresh\<close>, \<open>POST /logout\<close> and \<open>POST /logout-all\<close> carry no user object at all.
\<close>

theorem responses_carry_no_password:
  "(\<forall>u. response_user (fst (register_handler env email password name phone tA tR tC tE s))
          = Some u \<longrightarrow> user_password u = None) \<and>
   (\<forall>u. response_user (fst (login_handler env email password tA tR tC tE s)) = Some u
          \<longrightarrow> user_password u = None) \<and>
   (\<forall>u. response_user (me_handler env bearer tv) = Some u \<longrightarrow> user_password u = None) \<and>
   response_user (fst (refresh_handler env body tv now tS s)) = None \<and>
   response_user (fst (logout_handler body s)) = None \<and>
   response_user (fst (logout_all_handler env bearer tv s)) = None"
  using register_no_password login_no_password me_no_password
  by (intro conjI allI impI refresh_no_user logout_no_user logout_all_no_user) blast+

theorem responses_carry_no_password_witness:
  "user_password demo_user = Some ''hash:secret1'' \<and>
   response_user (fst (demo_login 0 [])) = Some (demo_user\<lparr>user_password := None\<rparr>) \<and>
   user_password (demo_user\<lparr>user_password := None\<rparr>) = None \<and>
   response_user (me_handler (demo_env [demo_user]) (Some demo_access) 1000) =
     Some (demo_user\<lparr>user_password := None\<rparr>) \<and>
   response_user (fst (register_handler (demo_env [demo_user]) (Some ''c@d.com'')
                         (Some ''secret2'') (Some ''C'') None 0 0 0 0 [])) =
     Some \<lparr>user_id = 2, user_email = ''c@d.com'', user_password = None, user_name = ''C'',
           user_phone = None, user_client_type = Some ''unknown'', user_created_at = 0,
           user_last_login = None, user_is_active = True\<rparr> \<and>
   user_password \<lparr>user_id = 2, user_email = ''c@d.com'', user_password = None, user_name = ''C'',
           user_phone = None, user_client_type = Some ''unknown'', user_created_at = 0,
           user_last_login = None, user_is_active = True\<rparr> = None"
proof -
  let ?E = "demo_env [demo_user]"
  let ?u = "demo_user\<lparr>user_password := None\<rparr>"
  let ?n = "\<lparr>user_id = 2, user_email = ''c@d.com'', user_password = None, user_name = ''C'',
           user_phone = None, user_client_type = Some ''unknown'', user_created_at = 0,
           user_last_login = None, user_is_active = True\<rparr>"
  have stored: "user_password demo_user = Some ''hash:secret1''"
    by (simp add: demo_user_def)
  have l: "response_user (fst (login_handler ?E (Some ''a@b.com'') (Some ''secret1'') 0 0 0 0 []))
             = Some ?u"
    by (simp add: login_handler_def validateLogin_def falsy_def response_user_def
          sanitizeUser_def demo_eval)
  have m: "response_user (me_handler ?E (Some demo_access) 1000) = Some ?u"
    by (simp add: me_handler_def authenticateToken_def response_user_def sanitizeUser_def
          demo_eval)
  have r: "response_user (fst (register_handler ?E (Some ''c@d.com'') (Some ''secret2'')
                                 (Some ''C'') None 0 0 0 0 [])) = Some ?n"
    by (simp add: register_handler_def validateRegistration_def falsy_def response_user_def
          sanitizeUser_def demo_eval)
  note all = responses_carry_no_password
      [where env = ?E and tA = 0 and tR = 0 and tC = 0 and tE = 0 and s = "[]"
         and bearer = "Some demo_access" and tv = 1000]
  from all [where email = "Some ''a@b.com''" and password = "Some ''secret1''"] l
  have lp: "user_password ?u = None"
    by blast
  from all [where email = "Some ''c@d.com''" and password = "Some ''secret2''"
              and name = "Some ''C''" and phone = None] r
  have rp: "user_password ?n = None"
    by blast
  from stored l lp m r rp show ?thesis
    unfolding demo_login_def by blast
qed

section \<open>Failed logins\<close>

text \<open>
  C8. For a login that passes \<open>validateLogin\<close>, the handler's result when no user exists
  for the email (\<open>env1\<close>) and its result when the user exists but \<open>comparePassword\<close> returns
  \<open>false\<close> (\<open>env2\<close>) are the same: status 401, the message ``Invalid email or password'',
  no data, and the array \<open>refreshTokens\<close> unchanged, whatever the clock reads.
\<close>

theorem login_failures_identical:
  assumes "fst (validateLogin (Some e) (Some p))"
    and "findByEmail env1 e = Returns None"
    and "findByEmail env2 e = Returns (Some u)"
    and "comparePassword env2 p (user_password u) = Returns False"
  shows "login_handler env1 (Some e) (Some p) tA tR tC tE s =
           (reply 401 False ''Invalid email or password'', s) \<and>
         login_handler env2 (Some e) (Some p) tA' tR' tC' tE' s =
           (reply 401 False ''Invalid email or password'', s)"
  using assms by (simp add: login_handler_def)


theorem login_failures_identical_witness:
  "login_handler (demo_env []) (Some ''a@b.com'') (Some ''wrong1'') 0 0 0 0 demo_store =
     (reply 401 False ''Invalid email or password'', demo_store) \<and>
   login_handler (demo_env [demo_user]) (Some ''a@b.com'') (Some ''wrong1'') 9 9 9 9 demo_store =
     (reply 401 False ''Invalid email or password'', demo_store)"
proof -
  have h1: "fst (validateLogin (Some ''a@b.com'') (Some ''wrong1''))"
    by (simp add: validateLogin_def falsy_def)
  have h2: "findByEmail (demo_env []) ''a@b.com'' = Returns None"
    by (simp add: demo_env_def)
  have h3: "findByEmail (demo_env [demo_user]) ''a@b.com'' = Returns (Some demo_user)"
    by (simp add: demo_env_def demo_user_def)
  have h4: "comparePassword (demo_env [demo_user]) ''wrong1'' (user_password demo_user) =
              Returns False"
    by (simp add: demo_env_def demo_user_def)
  from login_failures_identical [OF h1 h2 h3 h4, of 0 0 0 0 demo_store 9 9 9 9]
  show ?thesis .
qed

section \<open>Invariants of runs\<close>

text \<open>
  The events of a run are all that the handlers do to the array: each handler leaves it as
  it is or changes it as one event does.
\<close>

lemma handlers_are_steps:
  "snd (register_handler env email password name phone tA tR tC tE s) = s \<or>
   (\<exists>uid em. snd (register_handler env email password name phone tA tR tC tE s) =
      step (jwt_sign env) (jwt_verify env) (Issue uid em tA tR tC tE) s)"
  "snd (login_handler env email password tA tR tC tE s) = s \<or>
   (\<exists>uid em. snd (login_handler env email password tA tR tC tE s) =
      step (jwt_sign env) (jwt_verify env) (Issue uid em tA tR tC tE) s)"
  "snd (refresh_handler env body tv now tS s) = s \<or>
   (\<exists>tok. snd (refresh_handler env body tv now tS s) =
      step (jwt_sign env) (jwt_verify env) (Refresh tok tv now) s)"
  "snd (logout_handler body s) = s \<or>
   (\<exists>tok. snd (logout_handler body s) = step sg vf (Logout tok) s)"
  "snd (logout_all_handler env bearer tv s) = s \<or>
   (\<exists>uid. snd (logout_all_handler env bearer tv s) = step sg vf (LogoutAll uid) s)"
proof -
  show "snd (register_handler env email password name phone tA tR tC tE s) = s \<or>
   (\<exists>uid em. snd (register_handler env email password name phone tA tR tC tE s) =
      step (jwt_sign env) (jwt_verify env) (Issue uid em tA tR tC tE) s)"
    by (auto simp: register_handler_def Let_def
             split: option.splits outcome.splits prod.splits)
       (metis snd_conv)
  show "snd (login_handler env email password tA tR tC tE s) = s \<or>
   (\<exists>uid em. snd (login_handler env email password tA tR tC tE s) =
      step (jwt_sign env) (jwt_verify env) (Issue uid em tA tR tC tE) s)"
    by (auto simp: login_handler_def Let_def
             split: option.splits outcome.splits prod.splits)
       (metis snd_conv)
  show "snd (refresh_handler env body tv now tS s) = s \<or>
   (\<exists>tok. snd (refresh_handler env body tv now tS s) =
      step (jwt_sign env) (jwt_verify env) (Refresh tok tv now) s)"
    by (cases body) (auto simp: refresh_handler_no_token refresh_handler_store)
  show "snd (logout_handler body s) = s \<or>
   (\<exists>tok. snd (logout_handler body s) = step sg vf (Logout tok) s)"
    by (cases body) (auto simp: logout_handler_def)
  show "snd (logout_all_handler env bearer tv s) = s \<or>
   (\<exists>uid. snd (logout_all_handler env bearer tv s) = step sg vf (LogoutAll uid) s)"
    by (auto simp: logout_all_handler_def split: sum.splits prod.splits) (metis snd_conv)
qed

lemma removeRefreshToken_Cons:
  "snd (removeRefreshToken t (x # xs)) =
     (if token x = t then xs else x # snd (removeRefreshToken t xs))"
proof (cases "token x = t")
  case True
  then show ?thesis
    using removeRefreshToken_first [of "[]" t x xs] by simp
next
  case False
  show ?thesis
  proof (cases "\<exists>y\<in>set xs. token y = t")
    case True
    then obtain pre r post where
      xs: "xs = pre @ r # post" and r: "token r = t" and pre: "\<forall>y\<in>set pre. token y \<noteq> t"
      using first_occurrence [of xs "\<lambda>y. token y = t"] by blast
    from pre False have "\<forall>y\<in>set (x # pre). token y \<noteq> t"
      by simp
    then have "removeRefreshToken t ((x # pre) @ r # post) = (True, (x # pre) @ post)"
      using r by (rule removeRefreshToken_first)
    moreover have "removeRefreshToken t (pre @ r # post) = (True, pre @ post)"
      using pre r by (rule removeRefreshToken_first)
    ultimately show ?thesis
      using False by (simp add: xs)
  next
    case False
    with \<open>token x \<noteq> t\<close> have "\<forall>y\<in>set (x # xs). token y \<noteq> t" and "\<forall>y\<in>set xs. token y \<noteq> t"
      by auto
    then show ?thesis
      using \<open>token x \<noteq> t\<close> by (simp add: removeRefreshToken_absent)
  qed
qed

lemma removeRefreshToken_Nil: "snd (removeRefreshToken t []) = []"
  by (simp add: removeRefreshToken_absent)

lemma set_removeRefreshToken: "set (snd (removeRefreshToken t s)) \<subseteq> set s"
  by (induction s) (auto simp: removeRefreshToken_Nil removeRefreshToken_Cons)

lemma set_fold_remove:
  "set (fold (\<lambda>t s. snd (removeRefreshToken (token t) s)) ts s) \<subseteq> set s"
proof (induction ts arbitrary: s)
  case Nil
  then show ?case by simp
next
  case (Cons t ts)
  have "set (fold (\<lambda>t s. snd (removeRefreshToken (token t) s)) ts
               (snd (removeRefreshToken (token t) s)))
          \<subseteq> set (snd (removeRefreshToken (token t) s))"
    by (rule Cons.IH)
  also have "\<dots> \<subseteq> set s"
    by (rule set_removeRefreshToken)
  finally show ?case by simp
qed

lemma set_removeAllUserRefreshTokens: "set (snd (removeAllUserRefreshTokens uid s)) \<subseteq> set s"
  by (simp add: removeAllUserRefreshTokens_def Let_def set_fold_remove)

lemma set_verify: "set (snd (verifyRefreshToken vf tok tv now s)) \<subseteq> set s"
  using verify_store_cases [of vf tok tv now s] by auto

lemma step_origin:
  "r \<in> set (step sg vf e s) \<Longrightarrow> r \<in> set s \<or> issued_by sg e r"
proof (cases e)
  case (Issue uid em tA tR tC tE)
  assume "r \<in> set (step sg vf e s)"
  with Issue show ?thesis
    by (auto simp: generateTokens_def Let_def issued_by_def)
next
  case (Refresh tok tv now)
  assume "r \<in> set (step sg vf e s)"
  with Refresh set_verify [of vf tok tv now s] show ?thesis
    by auto
next
  case (Logout tok)
  assume "r \<in> set (step sg vf e s)"
  with Logout set_removeRefreshToken [of tok s] show ?thesis
    by auto
next
  case (LogoutAll uid)
  assume "r \<in> set (step sg vf e s)"
  with LogoutAll set_removeAllUserRefreshTokens [of uid s] show ?thesis
    by auto
qed

lemma fold_origin:
  "r \<in> set (fold (step sg vf) evs s) \<Longrightarrow> r \<in> set s \<or> (\<exists>e\<in>set evs. issued_by sg e r)"
proof (induction evs arbitrary: s)
  case Nil
  then show ?case by simp
next
  case (Cons e evs)
  from Cons.prems have "r \<in> set (fold (step sg vf) evs (step sg vf e s))"
    by simp
  then have "r \<in> set (step sg vf e s) \<or> (\<exists>e\<in>set evs. issued_by sg e r)"
    by (rule Cons.IH)
  then show ?case
    using step_origin [of r sg vf e s] by auto
qed

lemma run_origin:
  "r \<in> set (run sg vf evs) \<Longrightarrow> \<exists>e\<in>set evs. issued_by sg e r"
  using fold_origin [of r sg vf evs "[]"] by (simp add: run_def)

lemma issued_by_equal:
  "issued_by sg e r \<Longrightarrow> issue_reads_equal e \<Longrightarrow> expiresAt r = createdAt r + sevenDays"
  by (cases e) (auto simp: issued_by_def)

lemma issued_by_ordered:
  "issued_by sg e r \<Longrightarrow> issue_reads_ordered e \<Longrightarrow> createdAt r + sevenDays \<le> expiresAt r"
  by (cases e) (auto simp: issued_by_def)

lemma issued_by_Issue:
  "issued_by sg e r \<Longrightarrow>
   \<exists>uid em tA tR tC tE. e = Issue uid em tA tR tC tE \<and> token r = generateRefreshToken sg uid em tR \<and>
      userId r = uid \<and> createdAt r = tC \<and> expiresAt r = tE + sevenDays"
  by (cases e) (auto simp: issued_by_def)

text \<open>
  C2, as the code has it. \<open>generateTokens\<close> reads the clock once for \<open>createdAt\<close> and once
  more for \<open>expiresAt\<close>, and no operation changes an element of the array once it is
  pushed (refresh, logout and logout from all devices only delete). So in the array after
  any run, every element was pushed by an issuance of the run, with \<open>createdAt\<close> the first
  reading and \<open>expiresAt\<close> the second reading plus seven days. When the two readings of
  every issuance are the same instant, every element has \<open>expiresAt = createdAt + 7 days\<close>;
  when the clock does not go back between them, every element has
  \<open>createdAt + 7 days \<le> expiresAt\<close>.
\<close>

theorem record_expiry_in_runs:
  "(\<forall>r\<in>set (run sg vf evs).
      \<exists>uid em tA tR tC tE. Issue uid em tA tR tC tE \<in> set evs \<and>
        createdAt r = tC \<and> expiresAt r = tE + sevenDays) \<and>
   (list_all issue_reads_equal evs \<longrightarrow>
      (\<forall>r\<in>set (run sg vf evs). expiresAt r = createdAt r + sevenDays)) \<and>
   (list_all issue_reads_ordered evs \<longrightarrow>
      (\<forall>r\<in>set (run sg vf evs). createdAt r + sevenDays \<le> expiresAt r))"
proof (intro conjI impI ballI)
  fix r
  assume "r \<in> set (run sg vf evs)"
  then obtain e where "e \<in> set evs" and "issued_by sg e r"
    using run_origin by blast
  then show "\<exists>uid em tA tR tC tE. Issue uid em tA tR tC tE \<in> set evs \<and>
        createdAt r = tC \<and> expiresAt r = tE + sevenDays"
    using issued_by_Issue [of sg e r] by blast
next
  fix r
  assume "list_all issue_reads_equal evs" and "r \<in> set (run sg vf evs)"
  then obtain e where "issue_reads_equal e" and "issued_by sg e r"
    using run_origin [of r sg vf evs] by (auto simp: list_all_iff)
  then show "expiresAt r = createdAt r + sevenDays"
    using issued_by_equal by blast
next
  fix r
  assume "list_all issue_reads_ordered evs" and "r \<in> set (run sg vf evs)"
  then obtain e where "issue_reads_ordered e" and "issued_by sg e r"
    using run_origin [of r sg vf evs] by (auto simp: list_all_iff)
  then show "createdAt r + sevenDays \<le> expiresAt r"
    using issued_by_ordered by blast
qed

theorem record_expiry_in_runs_witness:
  "run (hs_sign ''k'') (hs_verify ''k'')
     [Issue 7 ''a@b.com'' 0 0 0 0, Issue 8 ''c@d.com'' 5 5 5 5, Refresh demo_refresh 1000 1000,
      Logout demo_access, LogoutAll 8] =
     [\<lparr>token = demo_refresh, userId = 7, createdAt = 0, expiresAt = 604800000\<rparr>] \<and>
   expiresAt \<lparr>token = demo_refresh, userId = 7, createdAt = 0, expiresAt = 604800000\<rparr> =
     createdAt \<lparr>token = demo_refresh, userId = 7, createdAt = 0, expiresAt = 604800000\<rparr>
       + sevenDays \<and>
   run (hs_sign ''k'') (hs_verify ''k'') [Issue 7 ''a@b.com'' 0 0 0 1] =
     [\<lparr>token = demo_refresh, userId = 7, createdAt = 0, expiresAt = 604800001\<rparr>] \<and>
   createdAt \<lparr>token = demo_refresh, userId = 7, createdAt = 0, expiresAt = 604800001\<rparr>
       + sevenDays \<le>
     expiresAt \<lparr>token = demo_refresh, userId = 7, createdAt = 0, expiresAt = 604800001\<rparr>"
proof -
  let ?evs = "[Issue 7 ''a@b.com'' 0 0 0 0, Issue 8 ''c@d.com'' 5 5 5 5,
               Refresh demo_refresh 1000 1000, Logout demo_access, LogoutAll 8]"
  let ?r = "\<lparr>token = demo_refresh, userId = 7, createdAt = 0, expiresAt = 604800000\<rparr>"
  let ?evs' = "[Issue 7 ''a@b.com'' 0 0 0 1] :: jwt event list"
  let ?r' = "\<lparr>token = demo_refresh, userId = 7, createdAt = 0, expiresAt = 604800001\<rparr>"
  have run1: "run (hs_sign ''k'') (hs_verify ''k'') ?evs = [?r]"
    by (simp add: run_def removeAllUserRefreshTokens_def demo_eval)
  have run2: "run (hs_sign ''k'') (hs_verify ''k'') ?evs' = [?r']"
    by (simp add: run_def demo_eval)
  have h1: "list_all issue_reads_equal ?evs"
    by simp
  have h2: "list_all issue_reads_ordered ?evs'"
    by simp
  from record_expiry_in_runs [of "hs_sign ''k''" "hs_verify ''k''" ?evs] h1
  have "\<forall>r\<in>set (run (hs_sign ''k'') (hs_verify ''k'') ?evs).
          expiresAt r = createdAt r + sevenDays"
    by blast
  then have c1: "expiresAt ?r = createdAt ?r + sevenDays"
    unfolding run1 by simp
  from record_expiry_in_runs [of "hs_sign ''k''" "hs_verify ''k''" ?evs'] h2
  have "\<forall>r\<in>set (run (hs_sign ''k'') (hs_verify ''k'') ?evs').
          createdAt r + sevenDays \<le> expiresAt r"
    by blast
  then have c2: "createdAt ?r' + sevenDays \<le> expiresAt ?r'"
    unfolding run2 by simp
  from run1 c1 run2 c2 show ?thesis
    by (intro conjI)
qed

text \<open>
  The claim as the specification states it fails when the clock advances between the two
  readings: with \<open>new Date()\<close> at 0 ms and \<open>Date.now()\<close> at 1 ms the element pushed has
  \<open>expiresAt\<close> one millisecond after \<open>createdAt + 7 days\<close>.
\<close>

theorem expiry_counts_from_second_clock_reading:
  "generateTokens (hs_sign ''k'') 7 ''a@b.com'' 0 0 0 1 [] =
     ((demo_access, demo_refresh),
      [\<lparr>token = demo_refresh, userId = 7, createdAt = 0, expiresAt = 604800001\<rparr>]) \<and>
   expiresAt \<lparr>token = demo_refresh, userId = 7, createdAt = 0, expiresAt = 604800001\<rparr> \<noteq>
     createdAt \<lparr>token = demo_refresh, userId = 7, createdAt = 0, expiresAt = 604800001\<rparr>
       + sevenDays"
  by (simp add: demo_eval)

section \<open>Logging out from all devices\<close>

lemma fold_remove_other:
  "\<forall>y\<in>set ts. token y \<noteq> token x \<Longrightarrow>
   fold (\<lambda>t s. snd (removeRefreshToken (token t) s)) ts (x # ys) =
     x # fold (\<lambda>t s. snd (removeRefreshToken (token t) s)) ts ys"
  by (induction ts arbitrary: ys) (auto simp: removeRefreshToken_Cons)

lemma owner_consistent_tl: "owner_consistent (x # xs) \<Longrightarrow> owner_consistent xs"
  unfolding owner_consistent_def by (meson list.set_intros(2))

lemma fold_remove_users:
  "owner_consistent s \<Longrightarrow>
   fold (\<lambda>t s. snd (removeRefreshToken (token t) s)) (filter (\<lambda>rt. userId rt = uid) s) s =
     filter (\<lambda>rt. userId rt \<noteq> uid) s"
proof (induction s)
  case Nil
  then show ?case by simp
next
  case (Cons x xs)
  from Cons.prems have "owner_consistent xs"
    by (rule owner_consistent_tl)
  then have IH:
    "fold (\<lambda>t s. snd (removeRefreshToken (token t) s)) (filter (\<lambda>rt. userId rt = uid) xs) xs =
       filter (\<lambda>rt. userId rt \<noteq> uid) xs"
    by (rule Cons.IH)
  show ?case
  proof (cases "userId x = uid")
    case True
    have "fold (\<lambda>t s. snd (removeRefreshToken (token t) s))
            (filter (\<lambda>rt. userId rt = uid) (x # xs)) (x # xs) =
          fold (\<lambda>t s. snd (removeRefreshToken (token t) s))
            (filter (\<lambda>rt. userId rt = uid) xs) xs"
      using True
      by (simp only: filter.simps fold_simps comp_apply removeRefreshToken_Cons if_True
            simp_thms)
    also have "\<dots> = filter (\<lambda>rt. userId rt \<noteq> uid) xs"
      by (rule IH)
    also have "\<dots> = filter (\<lambda>rt. userId rt \<noteq> uid) (x # xs)"
      using True by simp
    finally show ?thesis .
  next
    case False
    have "token y \<noteq> token x" if "y \<in> set (filter (\<lambda>rt. userId rt = uid) xs)" for y
    proof
      assume "token y = token x"
      moreover from that have "y \<in> set (x # xs)" and "userId y = uid"
        by simp_all
      moreover have "x \<in> set (x # xs)"
        by simp
      ultimately have "userId y = userId x"
        using Cons.prems unfolding owner_consistent_def by blast
      with \<open>userId y = uid\<close> False show False
        by simp
    qed
    then have other: "\<forall>y\<in>set (filter (\<lambda>rt. userId rt = uid) xs). token y \<noteq> token x"
      by blast
    have "fold (\<lambda>t s. snd (removeRefreshToken (token t) s))
            (filter (\<lambda>rt. userId rt = uid) (x # xs)) (x # xs) =
          fold (\<lambda>t s. snd (removeRefreshToken (token t) s))
            (filter (\<lambda>rt. userId rt = uid) xs) (x # xs)"
      using False by (simp only: filter.simps if_False)
    also have "\<dots> = x # fold (\<lambda>t s. snd (removeRefreshToken (token t) s))
            (filter (\<lambda>rt. userId rt = uid) xs) xs"
      using other by (rule fold_remove_other)
    also have "\<dots> = x # filter (\<lambda>rt. userId rt \<noteq> uid) xs"
      by (simp only: IH)
    also have "\<dots> = filter (\<lambda>rt. userId rt \<noteq> uid) (x # xs)"
      using False by simp
    finally show ?thesis .
  qed
qed

lemma run_owner_consistent:
  assumes "sign_identifies_user sg"
  shows "owner_consistent (run sg vf evs)"
  unfolding owner_consistent_def
proof (intro ballI impI)
  fix x y
  assume "x \<in> set (run sg vf evs)" and "y \<in> set (run sg vf evs)" and eq: "token x = token y"
  then obtain e e' where "issued_by sg e x" and "issued_by sg e' y"
    using run_origin by blast
  then obtain uid em tR uid' em' tR' where
    x: "token x = generateRefreshToken sg uid em tR" "userId x = uid" and
    y: "token y = generateRefreshToken sg uid' em' tR'" "userId y = uid'"
    using issued_by_Issue [of sg e x] issued_by_Issue [of sg e' y] by blast
  from eq x(1) y(1)
  have "sg \<lparr>jwt_userId = uid, jwt_email = em, jwt_type = ''refresh''\<rparr> ''7d'' tR =
        sg \<lparr>jwt_userId = uid', jwt_email = em', jwt_type = ''refresh''\<rparr> ''7d'' tR'"
    by (simp add: generateRefreshToken_def)
  with assms
  have "jwt_userId \<lparr>jwt_userId = uid, jwt_email = em, jwt_type = ''refresh''\<rparr> =
        jwt_userId \<lparr>jwt_userId = uid', jwt_email = em', jwt_type = ''refresh''\<rparr>"
    unfolding sign_identifies_user_def by blast
  with x(2) y(2) show "userId x = userId y"
    by simp
qed

text \<open>
  C6. In the array after any run of the program, \<open>removeAllUserRefreshTokens uid\<close> returns
  the number of elements whose \<open>userId\<close> is \<open>uid\<close> and leaves exactly the elements of the
  other users, each in place and in order. The function deletes by token, one
  \<open>removeRefreshToken\<close> for each element of the user, so the proof rests on the invariant
  that elements carrying the same token belong to the same user (\<open>run_owner_consistent\<close>),
  which holds because a token is signed over the \<open>userId\<close> it is stored with.
\<close>

theorem logoutAll_removes_the_users_records:
  assumes "sign_identifies_user sg"
  shows "removeAllUserRefreshTokens uid (run sg vf evs) =
           (length (filter (\<lambda>rt. userId rt = uid) (run sg vf evs)),
            filter (\<lambda>rt. userId rt \<noteq> uid) (run sg vf evs))"
proof -
  have "owner_consistent (run sg vf evs)"
    using assms by (rule run_owner_consistent)
  then have "fold (\<lambda>t s. snd (removeRefreshToken (token t) s))
               (filter (\<lambda>rt. userId rt = uid) (run sg vf evs)) (run sg vf evs) =
             filter (\<lambda>rt. userId rt \<noteq> uid) (run sg vf evs)"
    by (rule fold_remove_users)
  then show ?thesis
    unfolding removeAllUserRefreshTokens_def Let_def by (simp only:)
qed


theorem logoutAll_removes_the_users_records_witness:
  "removeAllUserRefreshTokens 7
     (run (hs_sign ''k'') (hs_verify ''k'')
        [Issue 7 ''a@b.com'' 0 0 0 0, Issue 8 ''c@d.com'' 5 5 5 5,
         Issue 7 ''a@b.com'' 400 400 400 400]) =
     (2, [\<lparr>token = generateRefreshToken (hs_sign ''k'') 8 ''c@d.com'' 5, userId = 8,
            createdAt = 5, expiresAt = 5 + sevenDays\<rparr>])"
proof -
  let ?evs = "[Issue 7 ''a@b.com'' 0 0 0 0, Issue 8 ''c@d.com'' 5 5 5 5,
               Issue 7 ''a@b.com'' 400 400 400 400] :: jwt event list"
  have h: "sign_identifies_user (hs_sign ''k'')"
    by (simp add: sign_identifies_user_def hs_sign_def)
  have r: "run (hs_sign ''k'') (hs_verify ''k'') ?evs =
       [\<lparr>token = demo_refresh, userId = 7, createdAt = 0, expiresAt = sevenDays\<rparr>,
        \<lparr>token = generateRefreshToken (hs_sign ''k'') 8 ''c@d.com'' 5, userId = 8,
            createdAt = 5, expiresAt = 5 + sevenDays\<rparr>,
        \<lparr>token = demo_refresh, userId = 7, createdAt = 400, expiresAt = 400 + sevenDays\<rparr>]"
    by (simp add: run_def demo_eval)
  from logoutAll_removes_the_users_records [OF h, of 7 "hs_verify ''k''" ?evs]
  show ?thesis
    unfolding r by simp
qed

end
